theory Spec2Isabelle
  imports Main
begin

section \<open>The VSCode open-file action of \<^verbatim>\<open>openhands/events/action/vscode.py\<close>\<close>

text \<open>
  The module declares one dataclass, \<^verbatim>\<open>VSCodeOpenFileAction(Action)\<close>, with four
  instance fields, one class-level flag, a \<^verbatim>\<open>message\<close> property and a
  \<^verbatim>\<open>__str__\<close> method. Python's \<^verbatim>\<open>str\<close> is modelled as \<open>string\<close>; only
  concatenation and emptiness of strings are used, so the alphabet plays no role.
\<close>

subsection \<open>Imported names\<close>

text \<open>
  \<^verbatim>\<open>ActionType\<close> comes from \<^verbatim>\<open>openhands.core.schema\<close>. The module reads a single
  member of it, the string constant \<^verbatim>\<open>ActionType.VSCODE_OPEN_FILE\<close>, whose value is
  declared elsewhere. The schema is therefore a parameter of the model: a record with
  that one member, and every definition that reads the constant takes the schema as
  its first argument.
\<close>

record ActionType =
  VSCODE_OPEN_FILE :: string

text \<open>
  \<^verbatim>\<open>ActionSecurityRisk\<close> comes from \<^verbatim>\<open>openhands.events.action.action\<close>. The module
  only stores values of it, so it is the type parameter \<open>'r\<close> below.
\<close>

subsection \<open>The dataclass\<close>

text \<open>
  Modelled from the spec: the base class \<^verbatim>\<open>Action\<close> of
  \<^verbatim>\<open>openhands.events.action.action\<close> is declared outside this module. The spec's
  data model gives the record exactly the instance fields below, so \<^verbatim>\<open>Action\<close>
  contributes no dataclass field and no \<^verbatim>\<open>__post_init__\<close> of its own.

  The annotated attributes \<^verbatim>\<open>file_path\<close>, \<^verbatim>\<open>thought\<close>, \<^verbatim>\<open>action\<close> and
  \<^verbatim>\<open>security_risk\<close> are the dataclass fields, in this order.
\<close>

record 'r VSCodeOpenFileAction =
  file_path :: string
  thought :: string
  action :: string
  security_risk :: "'r option"

text \<open>
  \<^verbatim>\<open>runnable: ClassVar[bool] = True\<close> is an attribute of the class. A \<^verbatim>\<open>ClassVar\<close>
  is no dataclass field: it is neither a constructor parameter nor stored in an
  instance. Reading \<^verbatim>\<open>self.runnable\<close> finds the class attribute.
\<close>

definition runnable :: bool where
  "runnable = True"

definition get_runnable :: "'r VSCodeOpenFileAction \<Rightarrow> bool" where
  "get_runnable self = runnable"

subsection \<open>Construction\<close>

text \<open>
  \<^verbatim>\<open>@dataclass\<close> generates
  \<^verbatim>\<open>__init__(self, file_path, thought='', action=ActionType.VSCODE_OPEN_FILE, security_risk=None)\<close>,
  which stores each argument in the field of the same name. An argument of a call is
  either supplied (\<open>Some v\<close>) or left out (\<open>None\<close>); a parameter with a default takes
  the default when it is left out. Leaving out \<^verbatim>\<open>file_path\<close>, the only parameter
  with no default, raises Python's \<^verbatim>\<open>TypeError\<close> for a missing required argument,
  here carrying the parameter's name. For \<^verbatim>\<open>security_risk\<close> the supplied value is
  itself optional (\<^verbatim>\<open>ActionSecurityRisk | None\<close>).
\<close>

datatype error = TypeError string

definition init ::
  "ActionType \<Rightarrow> string option \<Rightarrow> string option \<Rightarrow> string option \<Rightarrow> 'r option option
     \<Rightarrow> error + 'r VSCodeOpenFileAction" where
  "init AT file_path_arg thought_arg action_arg security_risk_arg =
     (case file_path_arg of
        None \<Rightarrow> Inl (TypeError ''file_path'')
      | Some p \<Rightarrow>
          Inr \<lparr>file_path = p,
               thought = (case thought_arg of None \<Rightarrow> '''' | Some t \<Rightarrow> t),
               action = (case action_arg of None \<Rightarrow> VSCODE_OPEN_FILE AT | Some a \<Rightarrow> a),
               security_risk = (case security_risk_arg of None \<Rightarrow> None | Some r \<Rightarrow> r)\<rparr>)"

subsection \<open>Equality\<close>

text \<open>
  \<^verbatim>\<open>@dataclass\<close> (with its default \<^verbatim>\<open>eq=True\<close>) generates \<^verbatim>\<open>__eq__\<close>, which for
  two instances of the class compares the tuples of their fields, in field order.
\<close>

definition astuple ::
  "'r VSCodeOpenFileAction \<Rightarrow> string \<times> string \<times> string \<times> 'r option" where
  "astuple self = (file_path self, thought self, action self, security_risk self)"

definition dataclass_eq :: "'r VSCodeOpenFileAction \<Rightarrow> 'r VSCodeOpenFileAction \<Rightarrow> bool" where
  "dataclass_eq self other = (astuple self = astuple other)"

subsection \<open>The accessors\<close>

text \<open>
  \<^verbatim>\<open>message\<close> returns the f-string \<^verbatim>\<open>f'Opening file in VSCode: {self.file_path}'\<close>:
  the literal text followed by the formatted field, and a \<^verbatim>\<open>str\<close> formats to itself.
\<close>

definition message :: "'r VSCodeOpenFileAction \<Rightarrow> string" where
  "message self = ''Opening file in VSCode: '' @ file_path self"

text \<open>
  \<^verbatim>\<open>__str__\<close> builds its result in the local variable \<^verbatim>\<open>ret\<close>: the header line, then
  the thought line when \<^verbatim>\<open>self.thought\<close> is truthy (a \<^verbatim>\<open>str\<close> is truthy when it is
  not empty), then the file path with no line break after it. Each \<^verbatim>\<open>ret += ...\<close>
  is a rebinding of \<open>ret\<close>.
\<close>

definition str :: "'r VSCodeOpenFileAction \<Rightarrow> string" where
  "str self =
     (let ret = ''**VSCodeOpenFileAction**\<newline>'';
          ret = (if thought self \<noteq> ''''
                 then ret @ ''THOUGHT: '' @ thought self @ ''\<newline>''
                 else ret);
          ret = ret @ ''FILE_PATH: '' @ file_path self
      in ret)"

subsection \<open>The accessors as calls on an instance\<close>

text \<open>
  Python does not enforce the annotations of a dataclass: an attribute of an instance
  holds any object. An f-string field \<^verbatim>\<open>{v}\<close> is \<^verbatim>\<open>format(v, '')\<close> and
  \<^verbatim>\<open>if v:\<close> is \<^verbatim>\<open>bool(v)\<close>. On a \<^verbatim>\<open>str\<close> these are the string itself and its
  non-emptiness, on \<^verbatim>\<open>None\<close> they are \<^verbatim>\<open>'None'\<close> and \<^verbatim>\<open>False\<close>; on any other
  object they run that object's own \<^verbatim>\<open>__format__\<close> and \<^verbatim>\<open>__bool__\<close>, which may
  raise and may assign to whatever they can reach, the instance included.

  So a call on an instance is a function from the instance before the call to the
  outcome (the exception raised, \<open>Inl\<close>, or the value returned, \<open>Inr\<close>) and the
  instance after the call. The methods of the other objects are declared outside
  this module and are parameters of the model, the record \<open>protocol\<close>.
\<close>

datatype 'o pyobj = Str string | NoneVal | Obj 'o

record 'o pyinstance =
  attr_file_path :: "'o pyobj"
  attr_thought :: "'o pyobj"
  attr_action :: "'o pyobj"
  attr_security_risk :: "'o pyobj"

type_synonym ('o, 'e, 'a) call = "'o pyinstance \<Rightarrow> ('e + 'a) \<times> 'o pyinstance"

record ('o, 'e) protocol =
  obj_format :: "'o \<Rightarrow> ('o, 'e, string) call"
  obj_bool :: "'o \<Rightarrow> ('o, 'e, bool) call"

definition py_return :: "'a \<Rightarrow> ('o, 'e, 'a) call" where
  "py_return x self = (Inr x, self)"

definition py_bind :: "('o, 'e, 'a) call \<Rightarrow> ('a \<Rightarrow> ('o, 'e, 'b) call) \<Rightarrow> ('o, 'e, 'b) call" where
  "py_bind m f self =
     (case m self of
        (Inl e, self') \<Rightarrow> (Inl e, self')
      | (Inr x, self') \<Rightarrow> f x self')"

definition py_getattr :: "('o pyinstance \<Rightarrow> 'o pyobj) \<Rightarrow> ('o, 'e, 'o pyobj) call" where
  "py_getattr attr self = (Inr (attr self), self)"

definition py_format :: "('o, 'e) protocol \<Rightarrow> 'o pyobj \<Rightarrow> ('o, 'e, string) call" where
  "py_format P v =
     (case v of
        Str s \<Rightarrow> py_return s
      | NoneVal \<Rightarrow> py_return ''None''
      | Obj x \<Rightarrow> obj_format P x)"

definition py_bool :: "('o, 'e) protocol \<Rightarrow> 'o pyobj \<Rightarrow> ('o, 'e, bool) call" where
  "py_bool P v =
     (case v of
        Str s \<Rightarrow> py_return (s \<noteq> '''')
      | NoneVal \<Rightarrow> py_return False
      | Obj x \<Rightarrow> obj_bool P x)"

text \<open>The body of \<^verbatim>\<open>message\<close>, expression by expression.\<close>

definition message_call :: "('o, 'e) protocol \<Rightarrow> ('o, 'e, string) call" where
  "message_call P =
     py_bind (py_getattr attr_file_path) (\<lambda>v.
     py_bind (py_format P v) (\<lambda>s.
     py_return (''Opening file in VSCode: '' @ s)))"

text \<open>
  The body of \<^verbatim>\<open>__str__\<close>, statement by statement; \<^verbatim>\<open>self.thought\<close> is read once
  for the test and once more for the f-string.
\<close>

definition str_call :: "('o, 'e) protocol \<Rightarrow> ('o, 'e, string) call" where
  "str_call P =
     py_bind (py_return ''**VSCodeOpenFileAction**\<newline>'') (\<lambda>ret.
     py_bind (py_getattr attr_thought) (\<lambda>c.
     py_bind (py_bool P c) (\<lambda>b.
     py_bind (if b
              then py_bind (py_getattr attr_thought) (\<lambda>v.
                   py_bind (py_format P v) (\<lambda>s.
                   py_return (ret @ ''THOUGHT: '' @ s @ ''\<newline>'')))
              else py_return ret) (\<lambda>ret.
     py_bind (py_getattr attr_file_path) (\<lambda>v.
     py_bind (py_format P v) (\<lambda>s.
     py_return (ret @ ''FILE_PATH: '' @ s)))))))"

text \<open>
  The instance that construction leaves behind for a record of the annotated types:
  the three string fields hold \<^verbatim>\<open>str\<close> objects, \<^verbatim>\<open>security_risk\<close> holds \<^verbatim>\<open>None\<close>
  or a risk object.
\<close>

definition instance_of :: "'o VSCodeOpenFileAction \<Rightarrow> 'o pyinstance" where
  "instance_of a =
     \<lparr>attr_file_path = Str (file_path a),
      attr_thought = Str (thought a),
      attr_action = Str (action a),
      attr_security_risk = (case security_risk a of None \<Rightarrow> NoneVal | Some r \<Rightarrow> Obj r)\<rparr>"

section \<open>Auxiliary facts\<close>

lemma init_supplied:
  "init AT (Some p) th ac sr =
     Inr \<lparr>file_path = p,
          thought = (case th of None \<Rightarrow> '''' | Some t \<Rightarrow> t),
          action = (case ac of None \<Rightarrow> VSCODE_OPEN_FILE AT | Some a \<Rightarrow> a),
          security_risk = (case sr of None \<Rightarrow> None | Some r \<Rightarrow> r)\<rparr>"
  by (simp add: init_def)

lemma str_no_thought:
  "thought a = '''' \<Longrightarrow> str a = ''**VSCodeOpenFileAction**\<newline>FILE_PATH: '' @ file_path a"
  by (simp add: str_def)

lemma str_with_thought:
  "thought a \<noteq> '''' \<Longrightarrow>
     str a = ''**VSCodeOpenFileAction**\<newline>THOUGHT: '' @ thought a @ ''\<newline>FILE_PATH: '' @ file_path a"
  by (simp add: str_def)

lemma message_call_on_strings:
  "attr_file_path i = Str p \<Longrightarrow>
     message_call P i = (Inr (''Opening file in VSCode: '' @ p), i)"
  by (simp add: message_call_def py_bind_def py_getattr_def py_format_def py_return_def)

lemma str_call_on_strings:
  "attr_file_path i = Str p \<Longrightarrow> attr_thought i = Str t \<Longrightarrow>
     str_call P i =
       (Inr (''**VSCodeOpenFileAction**\<newline>''
              @ (if t \<noteq> '''' then ''THOUGHT: '' @ t @ ''\<newline>'' else '''')
              @ ''FILE_PATH: '' @ p), i)"
  by (simp add: str_call_def py_bind_def py_getattr_def py_format_def py_bool_def py_return_def)

text \<open>
  On other field values the calls are not total: a \<^verbatim>\<open>file_path\<close> object whose
  \<^verbatim>\<open>__format__\<close> raises makes \<^verbatim>\<open>message\<close> raise, and a \<^verbatim>\<open>thought\<close> object whose
  \<^verbatim>\<open>__bool__\<close> assigns to the instance makes \<^verbatim>\<open>__str__\<close> change it.
\<close>

lemma message_call_may_raise:
  "message_call \<lparr>obj_format = (\<lambda>x self. (Inl e, self)), obj_bool = B\<rparr> (i\<lparr>attr_file_path := Obj x\<rparr>)
     = (Inl e, i\<lparr>attr_file_path := Obj x\<rparr>)"
  by (simp add: message_call_def py_bind_def py_getattr_def py_format_def)

lemma str_call_may_assign:
  "snd (str_call \<lparr>obj_format = F, obj_bool = (\<lambda>x self. (Inr False, self\<lparr>attr_file_path := Str ''b''\<rparr>))\<rparr>
          \<lparr>attr_file_path = Str ''a'', attr_thought = Obj x, attr_action = Str ''c'',
           attr_security_risk = NoneVal\<rparr>)
     = \<lparr>attr_file_path = Str ''b'', attr_thought = Obj x, attr_action = Str ''c'',
        attr_security_risk = NoneVal\<rparr>"
  by (simp add: str_call_def py_bind_def py_getattr_def py_format_def py_bool_def py_return_def)

section \<open>The claims\<close>

text \<open>
  C1. For every constructed record the \<^verbatim>\<open>message\<close> property returns exactly
  \<^verbatim>\<open>"Opening file in VSCode: "\<close> followed by the record's \<^verbatim>\<open>file_path\<close> field.
  Every call of the constructor that supplies \<^verbatim>\<open>file_path = p\<close> succeeds with a
  record whose \<open>file_path\<close> is \<open>p\<close> and whose message is the prefix followed by \<open>p\<close>;
  and the same holds of any record value \<open>r\<close>, however it was obtained. The accessor
  is a function of the record to a string, so the call has no effect on anything.
\<close>

theorem message_summary:
  "(\<exists>a. init AT (Some p) th ac sr = Inr a \<and> file_path a = p \<and>
        message a = ''Opening file in VSCode: '' @ p) \<and>
   message r = ''Opening file in VSCode: '' @ file_path r"
  by (simp add: init_supplied message_def)

text \<open>
  C2. For every non-empty string \<open>p\<close>, constructing with \<^verbatim>\<open>file_path = p\<close> and no
  \<^verbatim>\<open>thought\<close> argument (whatever is supplied for \<^verbatim>\<open>action\<close> and
  \<^verbatim>\<open>security_risk\<close>) succeeds, and \<^verbatim>\<open>__str__\<close> of the record is exactly the header
  line followed by \<^verbatim>\<open>"FILE_PATH: "\<close> and \<open>p\<close>. Nothing follows the path: the result
  ends in the last character of \<open>p\<close>.
\<close>

theorem str_without_thought:
  assumes "p \<noteq> ''''"
  shows "\<exists>a. init AT (Some p) None ac sr = Inr a \<and>
             str a = ''**VSCodeOpenFileAction**\<newline>FILE_PATH: '' @ p \<and>
             last (str a) = last p"
  using assms by (simp add: init_supplied str_no_thought)

theorem str_without_thought_witness:
  "''a.py'' \<noteq> '''' \<and>
   (\<exists>a. init \<lparr>VSCODE_OPEN_FILE = ''open''\<rparr> (Some ''a.py'') None None (None :: nat option option) = Inr a \<and>
        str a = ''**VSCodeOpenFileAction**\<newline>FILE_PATH: a.py'' \<and>
        last (str a) = CHR ''y'')"
  using str_without_thought [of "''a.py''" "\<lparr>VSCODE_OPEN_FILE = ''open''\<rparr>" None "None :: nat option option"]
  by simp

text \<open>
  C3. For every string \<open>p\<close> and every non-empty string \<open>t\<close>, constructing with
  \<^verbatim>\<open>file_path = p\<close> and \<^verbatim>\<open>thought = t\<close> succeeds, and \<^verbatim>\<open>__str__\<close> of the record is
  exactly the header line, the line \<^verbatim>\<open>"THOUGHT: "\<close> with \<open>t\<close>, and
  \<^verbatim>\<open>"FILE_PATH: "\<close> with \<open>p\<close>. The thought line is there if and only if the thought
  is non-empty: for any record \<open>b\<close>, the text right after the header line of
  \<^verbatim>\<open>__str__\<close> starts with \<^verbatim>\<open>"THOUGHT: "\<close> exactly when \<open>thought b\<close> is not empty.
\<close>

theorem str_with_thought_line:
  assumes "t \<noteq> ''''"
  shows "(\<exists>a. init AT (Some p) (Some t) ac sr = Inr a \<and>
              str a = ''**VSCodeOpenFileAction**\<newline>THOUGHT: '' @ t @ ''\<newline>FILE_PATH: '' @ p) \<and>
         ((take (length ''THOUGHT: '') (drop (length ''**VSCodeOpenFileAction**\<newline>'') (str b))
             = ''THOUGHT: '') = (thought b \<noteq> ''''))"
proof -
  from assms have "\<exists>a. init AT (Some p) (Some t) ac sr = Inr a \<and>
      str a = ''**VSCodeOpenFileAction**\<newline>THOUGHT: '' @ t @ ''\<newline>FILE_PATH: '' @ p"
    by (simp add: init_supplied str_with_thought)
  moreover have "(take (length ''THOUGHT: '') (drop (length ''**VSCodeOpenFileAction**\<newline>'') (str b))
      = ''THOUGHT: '') = (thought b \<noteq> '''')"
  proof (cases "thought b = ''''")
    case True
    then show ?thesis by (simp add: str_no_thought)
  next
    case False
    then show ?thesis by (simp add: str_with_thought)
  qed
  ultimately show ?thesis by blast
qed

theorem str_with_thought_line_witness:
  "''why'' \<noteq> '''' \<and>
   (\<exists>a. init \<lparr>VSCODE_OPEN_FILE = ''open''\<rparr> (Some ''a.py'') (Some ''why'') None (None :: nat option option) = Inr a \<and>
        str a = ''**VSCodeOpenFileAction**\<newline>THOUGHT: why\<newline>FILE_PATH: a.py'') \<and>
   take (length ''THOUGHT: '') (drop (length ''**VSCodeOpenFileAction**\<newline>'')
     (str \<lparr>file_path = ''a.py'', thought = '''', action = ''open'', security_risk = None :: nat option\<rparr>))
     \<noteq> ''THOUGHT: ''"
proof -
  have h: "''why'' \<noteq> ''''" by simp
  from str_with_thought_line [OF h, where AT = "\<lparr>VSCODE_OPEN_FILE = ''open''\<rparr>" and p = "''a.py''"
      and ac = None and sr = "None :: nat option option"
      and b = "\<lparr>file_path = ''a.py'', thought = '''', action = ''open'', security_risk = None :: nat option\<rparr>"]
  show ?thesis using h by simp
qed

text \<open>
  C4, as stated: the \<^verbatim>\<open>action\<close> field equals \<^verbatim>\<open>ActionType.VSCODE_OPEN_FILE\<close> for
  every constructed instance and cannot be set by construction. This fails on the
  code: \<^verbatim>\<open>action\<close> is an ordinary dataclass field with a default, so the generated
  constructor has an \<^verbatim>\<open>action\<close> parameter. Constructing with
  \<^verbatim>\<open>file_path='a.py', action='run'\<close> under a schema whose constant is
  \<^verbatim>\<open>'vscode_open_file'\<close> succeeds with a record whose \<open>action\<close> is \<^verbatim>\<open>'run'\<close>.
\<close>

theorem action_fixed_counterexample:
  "init \<lparr>VSCODE_OPEN_FILE = ''vscode_open_file''\<rparr> (Some ''a.py'') None (Some ''run'') None =
     Inr \<lparr>file_path = ''a.py'', thought = '''', action = ''run'',
          security_risk = None :: nat option\<rparr> \<and>
   action \<lparr>file_path = ''a.py'', thought = '''', action = ''run'',
           security_risk = None :: nat option\<rparr>
     \<noteq> VSCODE_OPEN_FILE \<lparr>VSCODE_OPEN_FILE = ''vscode_open_file''\<rparr>"
  by (simp add: init_def)

text \<open>
  C4, amended: for every construction that supplies \<^verbatim>\<open>file_path\<close> and leaves the
  \<^verbatim>\<open>action\<close> argument out, the \<^verbatim>\<open>action\<close> field of the record equals
  \<^verbatim>\<open>ActionType.VSCODE_OPEN_FILE\<close>, whatever the other arguments are; a supplied
  \<^verbatim>\<open>action\<close> argument \<open>x\<close> is stored as given.
\<close>

theorem action_default:
  "(\<exists>a. init AT (Some p) th None sr = Inr a \<and> action a = VSCODE_OPEN_FILE AT) \<and>
   (\<exists>a. init AT (Some p) th (Some x) sr = Inr a \<and> action a = x)"
  by (simp add: init_supplied)

text \<open>
  C5. \<^verbatim>\<open>runnable\<close> is true for every instance, and it is the same for all
  instances: it is read from the class, whatever the fields of the instances \<open>a\<close> and
  \<open>b\<close> are (the record type has no \<^verbatim>\<open>runnable\<close> field and the constructor no such
  parameter).
\<close>

theorem runnable_class_constant:
  "get_runnable a = True \<and> get_runnable a = get_runnable b \<and> get_runnable a = runnable"
  by (simp add: get_runnable_def runnable_def)

text \<open>
  C6. Construction without the \<^verbatim>\<open>file_path\<close> argument fails, whatever the other
  arguments are, with the error for the missing required argument \<^verbatim>\<open>file_path\<close>
  (Python's \<^verbatim>\<open>TypeError\<close>, the spec's \<^verbatim>\<open>MissingRequiredField\<close>); construction with
  only \<^verbatim>\<open>file_path = p\<close> succeeds with \<^verbatim>\<open>thought\<close> the empty string,
  \<^verbatim>\<open>security_risk\<close> absent and \<^verbatim>\<open>action\<close> the constant.
\<close>

theorem init_requires_file_path:
  "init AT None th ac sr = Inl (TypeError ''file_path'') \<and>
   init AT (Some p) None None None =
     Inr \<lparr>file_path = p, thought = '''', action = VSCODE_OPEN_FILE AT, security_risk = None\<rparr>"
  by (simp add: init_def)

text \<open>
  C7. Both accessors are total on constructed records with string fields. Whatever
  the methods \<open>P\<close> of other objects do, a call of \<^verbatim>\<open>message\<close> or of \<^verbatim>\<open>__str__\<close> on the
  instance of a record \<open>a\<close> raises nothing, returns a string (the one the functions
  \<open>message\<close> and \<open>str\<close> give), and leaves every field of the instance as it was.
  Every construction with string values \<open>p\<close>, \<open>t\<close>, \<open>x\<close> and any risk \<open>r\<close> yields
  such a record.
\<close>

theorem accessors_total:
  "message_call P (instance_of a) = (Inr (message a), instance_of a) \<and>
   str_call P (instance_of a) = (Inr (str a), instance_of a) \<and>
   (\<exists>c. init AT (Some p) (Some t) (Some x) (Some r) = Inr c \<and>
        instance_of c = \<lparr>attr_file_path = Str p, attr_thought = Str t, attr_action = Str x,
                          attr_security_risk = (case r of None \<Rightarrow> NoneVal | Some v \<Rightarrow> Obj v)\<rparr>)"
proof -
  have fp: "attr_file_path (instance_of a) = Str (file_path a)"
    and th: "attr_thought (instance_of a) = Str (thought a)"
    by (simp_all add: instance_of_def)
  have "message_call P (instance_of a) = (Inr (message a), instance_of a)"
    using message_call_on_strings [OF fp] by (simp add: message_def)
  moreover have "str_call P (instance_of a) = (Inr (str a), instance_of a)"
  proof -
    have "str a = ''**VSCodeOpenFileAction**\<newline>''
              @ (if thought a \<noteq> '''' then ''THOUGHT: '' @ thought a @ ''\<newline>'' else '''')
              @ ''FILE_PATH: '' @ file_path a"
      by (simp add: str_def Let_def)
    then show ?thesis
      by (simp only: str_call_on_strings [OF fp th])
  qed
  moreover have "\<exists>c. init AT (Some p) (Some t) (Some x) (Some r) = Inr c \<and>
        instance_of c = \<lparr>attr_file_path = Str p, attr_thought = Str t, attr_action = Str x,
                          attr_security_risk = (case r of None \<Rightarrow> NoneVal | Some v \<Rightarrow> Obj v)\<rparr>"
    by (simp add: init_supplied instance_of_def)
  ultimately show ?thesis by blast
qed

text \<open>
  C8. The generated \<^verbatim>\<open>__eq__\<close> is value equality: two instances are equal exactly
  when their \<^verbatim>\<open>file_path\<close>, \<^verbatim>\<open>thought\<close>, \<^verbatim>\<open>action\<close> and \<^verbatim>\<open>security_risk\<close>
  fields are pairwise equal, and that is exactly when they are the same record value.
\<close>

theorem dataclass_eq_fields:
  "(dataclass_eq a b =
      (file_path a = file_path b \<and> thought a = thought b \<and> action a = action b \<and>
       security_risk a = security_risk b)) \<and>
   (dataclass_eq a b = (a = b))"
  by (cases a, cases b) (simp add: dataclass_eq_def astuple_def)

text \<open>
  C9. The results of \<^verbatim>\<open>message\<close> and \<^verbatim>\<open>__str__\<close> depend on \<^verbatim>\<open>file_path\<close> and
  \<^verbatim>\<open>thought\<close> only: two records that agree on these two fields give the same
  strings, however their \<^verbatim>\<open>action\<close> and \<^verbatim>\<open>security_risk\<close> fields differ.
\<close>

theorem accessors_noninterference:
  assumes "file_path a = file_path b" and "thought a = thought b"
  shows "message a = message b \<and> str a = str b"
  using assms by (simp add: message_def str_def Let_def)

theorem accessors_noninterference_witness:
  "message \<lparr>file_path = ''a.py'', thought = ''why'', action = ''open'', security_risk = None :: nat option\<rparr>
     = message \<lparr>file_path = ''a.py'', thought = ''why'', action = ''run'', security_risk = Some (2 :: nat)\<rparr> \<and>
   str \<lparr>file_path = ''a.py'', thought = ''why'', action = ''open'', security_risk = None :: nat option\<rparr>
     = str \<lparr>file_path = ''a.py'', thought = ''why'', action = ''run'', security_risk = Some (2 :: nat)\<rparr> \<and>
   \<lparr>file_path = ''a.py'', thought = ''why'', action = ''open'', security_risk = None :: nat option\<rparr>
     \<noteq> \<lparr>file_path = ''a.py'', thought = ''why'', action = ''run'', security_risk = Some (2 :: nat)\<rparr>"
  using accessors_noninterference
    [of "\<lparr>file_path = ''a.py'', thought = ''why'', action = ''open'', security_risk = None :: nat option\<rparr>"
        "\<lparr>file_path = ''a.py'', thought = ''why'', action = ''run'', security_risk = Some (2 :: nat)\<rparr>"]
  by simp

text \<open>
  C10. The formulas hold for the empty path as well: constructing with
  \<^verbatim>\<open>file_path = ''\<close> and nothing else succeeds, \<^verbatim>\<open>message\<close> of the record is the
  bare prefix and \<^verbatim>\<open>__str__\<close> is the header line followed by the bare
  \<^verbatim>\<open>"FILE_PATH: "\<close>.
\<close>

theorem empty_file_path:
  "\<exists>a. init AT (Some '''') None None None = Inr a \<and>
      message a = ''Opening file in VSCode: '' \<and>
      str a = ''**VSCodeOpenFileAction**\<newline>FILE_PATH: ''"
  by (simp add: init_supplied message_def str_def)

end
